theory Spec2Isabelle
  imports Complex_Main
begin

section \<open>InterviewRoom (src/unnamed/part_005): the violation log\<close>

text \<open>
  A proctoring flag as \<open>addProctoringFlag\<close> builds it. The source keeps the timestamp as
  an ISO string with millisecond precision and reads it back with \<open>getTime()\<close>; the
  model keeps the millisecond clock value itself.
\<close>

record flag =
  ftype :: string
  description :: string
  timestamp :: int
  questionIndex :: nat

text \<open>\<open>MediaRecorder.state\<close> is one of "inactive", "recording", "paused".\<close>

datatype recorder_state = Inactive | Recording | Paused

text \<open>
  The React state and refs of the component, followed by the traces of its effects:
  the toasts shown, the flags posted to \<open>/api/interview/proctor\<close> and the console.
  A stream ref is \<open>None\<close> while null and \<open>Some live\<close> once a stream is stored, \<open>live\<close>
  telling whether its tracks still run.
\<close>

record room =
  currentQuestionIndex :: nat
  isRecording :: bool
  isProctoringActive :: bool
  proctoringFlags :: "flag list"
  modelsLoaded :: bool
  videoStreamRef :: "bool option"
  screenStreamRef :: "bool option"
  roomScreenRecorderRef :: "recorder_state option"
  detectionIntervalRef :: bool
  toasts :: "string list"
  proctorPosts :: "flag list"
  roomConsole :: "string list"

text \<open>
  \<open>sendProctoringFlag\<close>: one POST; a rejection is caught and logged.
  \<open>ok\<close> is the outcome of the POST.
\<close>

definition sendProctoringFlag :: "bool \<Rightarrow> flag \<Rightarrow> room \<Rightarrow> room" where
  "sendProctoringFlag ok f st =
     (let st1 = st\<lparr>proctorPosts := proctorPosts st @ [f]\<rparr>
      in if ok then st1
         else st1\<lparr>roomConsole := roomConsole st1 @ [''Error sending proctoring flag:'']\<rparr>)"

text \<open>
  \<open>prev.find(f => f.type === type && new Date(f.timestamp).getTime() > Date.now() - 5000)\<close>
\<close>

definition recentFlag :: "int \<Rightarrow> string \<Rightarrow> flag list \<Rightarrow> flag option" where
  "recentFlag now ty prev = find (\<lambda>f. ftype f = ty \<and> timestamp f > now - 5000) prev"

text \<open>\<open>prev.filter(f => f.type === 'NO_FACE').length\<close>\<close>

definition noFaceCount :: "flag list \<Rightarrow> nat" where
  "noFaceCount prev = length (filter (\<lambda>f. ftype f = ''NO_FACE'') prev)"

text \<open>
  \<open>addProctoringFlag(type, description)\<close>. The function is a closure of one render of
  the component, and the \<open>currentQuestionIndex\<close> it stamps on the flag is the one of
  that render: \<open>qi\<close>. Its callers sit in the interval callback that
  \<open>startFaceDetection\<close> builds when the interview starts, which goes on calling the
  \<open>addProctoringFlag\<close> of the render it was built in; so \<open>qi\<close> is the index shown when
  Start was clicked, not the index in the state when the flag is raised. The log
  \<open>prev\<close>, in contrast, is handed to the state updater and is the live one.
  The clock is read twice: \<open>tcall\<close> is \<open>new Date()\<close> when the flag object is built,
  \<open>tnow\<close> is \<open>Date.now()\<close> inside the state updater. The toast text is the description
  (the source prefixes a warning sign).
\<close>

definition addProctoringFlag ::
  "nat \<Rightarrow> int \<Rightarrow> int \<Rightarrow> bool \<Rightarrow> string \<Rightarrow> string \<Rightarrow> room \<Rightarrow> room" where
  "addProctoringFlag qi tcall tnow ok ty desc st =
     (let newFlag = \<lparr>ftype = ty, description = desc, timestamp = tcall,
                      questionIndex = qi\<rparr>;
          prev = proctoringFlags st
      in case recentFlag tnow ty prev of
           None \<Rightarrow>
             (let st1 = sendProctoringFlag ok newFlag st;
                  st2 = (if ty \<noteq> ''NO_FACE'' \<or> noFaceCount prev mod 3 = 0
                         then st1\<lparr>toasts := toasts st1 @ [desc]\<rparr> else st1)
              in st2\<lparr>proctoringFlags := prev @ [newFlag]\<rparr>)
         | Some _ \<Rightarrow> st)"

text \<open>
  One call of \<open>addProctoringFlag\<close> with what its closure and the environment supply
  to it: the question index the closure holds, the two clock readings and the outcome of
  the POST.
\<close>

record flag_call =
  c_index :: nat
  c_tcall :: int
  c_tnow :: int
  c_ok :: bool
  c_type :: string
  c_desc :: string

definition flagStep :: "flag_call \<Rightarrow> room \<Rightarrow> room" where
  "flagStep c st =
     addProctoringFlag (c_index c) (c_tcall c) (c_tnow c) (c_ok c) (c_type c) (c_desc c) st"

text \<open>For a sequence of calls: was each one appended to the log, did each one raise a toast.\<close>

fun appended :: "flag_call list \<Rightarrow> room \<Rightarrow> bool list" where
  "appended [] st = []"
| "appended (c # cs) st =
     (length (proctoringFlags (flagStep c st)) = Suc (length (proctoringFlags st)))
       # appended cs (flagStep c st)"

fun notified :: "flag_call list \<Rightarrow> room \<Rightarrow> bool list" where
  "notified [] st = []"
| "notified (c # cs) st =
     (length (toasts (flagStep c st)) = Suc (length (toasts st)))
       # notified cs (flagStep c st)"

text \<open>No call of the sequence finds a recent flag of its type when it runs.\<close>

fun unsuppressed :: "flag_call list \<Rightarrow> room \<Rightarrow> bool" where
  "unsuppressed [] st = True"
| "unsuppressed (c # cs) st =
     (recentFlag (c_tnow c) (c_type c) (proctoringFlags st) = None
        \<and> unsuppressed cs (flagStep c st))"

text \<open>
  The NO_FACE call of the detection loop at time \<open>t\<close>, from a loop built while the
  first question was shown.
\<close>

definition noFaceCall :: "int \<Rightarrow> flag_call" where
  "noFaceCall t = \<lparr>c_index = 0, c_tcall = t, c_tnow = t, c_ok = True, c_type = ''NO_FACE'',
                     c_desc = ''No face detected in frame''\<rparr>"

definition room0 :: room where
  "room0 = \<lparr>currentQuestionIndex = 0, isRecording = False, isProctoringActive = False,
             proctoringFlags = [], modelsLoaded = False, videoStreamRef = None,
             screenStreamRef = None, roomScreenRecorderRef = None,
             detectionIntervalRef = False, toasts = [], proctorPosts = [],
             roomConsole = []\<rparr>"

text \<open>Ten NO_FACE calls, 5000 ms apart; and four, from 10000 ms on.\<close>

definition tenTicks :: "flag_call list" where
  "tenTicks = map noFaceCall [0, 5000, 10000, 15000, 20000, 25000, 30000, 35000, 40000, 45000]"

definition laterTicks :: "flag_call list" where
  "laterTicks = map noFaceCall [10000, 15000, 20000, 25000]"

subsection \<open>Starting and tearing down the room\<close>




section \<open>InterviewRecorder (src/frontend/src/components/InterviewRecorder.jsx)\<close>

text \<open>
  The four messages \<open>addViolation\<close> is called with; the multiple-faces message
  carries the count. A log entry holds the message and the clock reading that the
  source formats with \<open>toLocaleTimeString\<close>.
\<close>

datatype vmessage = TabSwitched | NoFaceMsg | MultipleFacesMsg nat | PasteMsg

record violation =
  message :: vmessage
  vtime :: int

text \<open>The \<open>proctoring\<close> ref.\<close>

record proctoring_ref =
  tab_blur_count :: nat
  multiple_faces :: bool
  face_count :: nat

text \<open>
  A \<open>MediaRecorder\<close> the component built: its state and the attempt id its
  \<open>ondataavailable\<close> handler closes over.
\<close>

datatype media_recorder = MediaRecorder (rstate: recorder_state) (rattempt: nat)

datatype device_call = GetUserMedia | GetDisplayMedia

text \<open>
  The body of an upload: a recorded segment of some size, or the final JSON summary
  \<open>{paste_count, proctoring}\<close>.
\<close>

datatype payload = Blob nat | Summary nat proctoring_ref

text \<open>
  The POST requests: start (simulation id), upload-chunk (attempt id, kind, body),
  finish (attempt id), face-flag (attempt id; \<open>True\<close> for \<open>multiple_faces\<close>,
  \<open>False\<close> for \<open>no_face\<close>; face count; \<open>timestamp_ms\<close>).
\<close>

datatype request =
    StartAttempt nat
  | UploadChunk "nat option" string payload
  | FinishAttempt "nat option"
  | FaceFlag nat bool nat int

datatype timer = HideWarning | Welcome | FirstQuestion

datatype error = NetworkError

text \<open>What the window offers.\<close>

record browser =
  hasSpeechSynthesis :: bool
  hasFaceDetector :: bool

text \<open>
  State and refs of the component, then the traces of its effects: device requests,
  POSTs, alerts, console lines, utterances handed to \<open>speechSynthesis.speak\<close>, timeouts
  scheduled, and \<open>stop()\<close> calls issued to recorders (by kind).
  \<open>faceDetectIntervalRef\<close> holds the attempt id the interval callback closes over.
  \<open>pasteListeners\<close> counts the "paste" listeners registered on the window: every render
  makes an \<open>onPaste\<close> of its own, and \<open>startInterview\<close> registers the one of the render
  it was clicked in.
\<close>

record recorder =
  attemptId :: "nat option"
  mediaRecorderRef :: "media_recorder option"
  screenRecorderRef :: "media_recorder option"
  faceDetectIntervalRef :: "nat option"
  recording :: bool
  proctoring :: proctoring_ref
  paste_count :: nat
  currentQuestion :: nat
  questions :: "string list"
  faceCount :: nat
  violations :: "violation list"
  showWarning :: bool
  pasteListeners :: nat
  videoSrc :: bool
  deviceCalls :: "device_call list"
  posts :: "request list"
  alerts :: "string list"
  console :: "string list"
  utterances :: "string list"
  timers :: "timer list"
  recorderStops :: "string list"

definition recorder0 :: recorder where
  "recorder0 = \<lparr>attemptId = None, mediaRecorderRef = None, screenRecorderRef = None,
     faceDetectIntervalRef = None, recording = False,
     proctoring = \<lparr>tab_blur_count = 0, multiple_faces = False, face_count = 0\<rparr>,
     paste_count = 0, currentQuestion = 0, questions = [], faceCount = 0, violations = [],
     showWarning = False, pasteListeners = 0, videoSrc = False, deviceCalls = [],
     posts = [], alerts = [], console = [], utterances = [], timers = [],
     recorderStops = []\<rparr>"

text \<open>\<open>api.post\<close>: the request goes out; \<open>ok\<close> tells whether the promise resolves.\<close>

definition apiPost :: "bool \<Rightarrow> request \<Rightarrow> recorder \<Rightarrow> (error + unit) \<times> recorder" where
  "apiPost ok r st =
     ((if ok then Inr () else Inl NetworkError), st\<lparr>posts := posts st @ [r]\<rparr>)"

text \<open>\<open>addViolation(message)\<close>: no type, no look at earlier entries.\<close>

definition addViolation :: "int \<Rightarrow> vmessage \<Rightarrow> recorder \<Rightarrow> recorder" where
  "addViolation now m st =
     st\<lparr>violations := violations st @ [\<lparr>message = m, vtime = now\<rparr>],
        showWarning := True,
        timers := timers st @ [HideWarning]\<rparr>"

text \<open>\<open>speakQuestion(text)\<close>: returns at once where the window has no speech synthesis.\<close>

definition speakQuestion :: "browser \<Rightarrow> string \<Rightarrow> recorder \<Rightarrow> recorder" where
  "speakQuestion b txt st =
     (if \<not> hasSpeechSynthesis b then st
      else st\<lparr>utterances := utterances st @ [txt]\<rparr>)"

text \<open>\<open>sendFaceFlag\<close>: a rejected POST is caught and logged.\<close>

definition sendFaceFlag :: "bool \<Rightarrow> nat \<Rightarrow> bool \<Rightarrow> nat \<Rightarrow> int \<Rightarrow> recorder \<Rightarrow> recorder" where
  "sendFaceFlag ok aid multiple n ts st =
     (case apiPost ok (FaceFlag aid multiple n ts) st of
        (Inl _, st1) \<Rightarrow> st1\<lparr>console := console st1 @ [''Failed to send face flag:'']\<rparr>
      | (Inr _, st1) \<Rightarrow> st1)"

text \<open>
  \<open>uploadChunk(attemptId, kind, blob)\<close>: one POST, whose rejection the \<open>.catch\<close> turns
  into a console warning; the promise of \<open>uploadChunk\<close> resolves either way. The same
  text stands in src/unnamed/part_000.
\<close>

definition uploadChunk ::
  "bool \<Rightarrow> nat option \<Rightarrow> string \<Rightarrow> payload \<Rightarrow> recorder \<Rightarrow> (error + unit) \<times> recorder" where
  "uploadChunk ok aid kind body st =
     (case apiPost ok (UploadChunk aid kind body) st of
        (Inl _, st1) \<Rightarrow> (Inr (), st1\<lparr>console := console st1 @ [''Chunk upload failed:'']\<rparr>)
      | (Inr _, st1) \<Rightarrow> (Inr (), st1))"

subsection \<open>The detection tick\<close>

text \<open>
  What one tick of the interval finds: the clock, the video's native size, whether the
  canvas could be drawn, what \<open>detector.detect\<close> gives (\<open>None\<close> when it rejects, else
  the number of faces), what \<open>getImageData\<close> gives (\<open>None\<close> when it throws, else the
  RGBA bytes), and the outcome of the face-flag POST.
\<close>

record tick_env =
  t_now :: int
  videoWidth :: nat
  videoHeight :: nat
  drawOk :: bool
  detectResult :: "nat option"
  imageData :: "nat list option"
  flagOk :: bool

text \<open>\<open>videoEl.videoWidth || 640\<close>\<close>

definition orDefault :: "nat \<Rightarrow> nat \<Rightarrow> nat" where
  "orDefault v d = (if v = 0 then d else v)"

text \<open>The skin-tone test on one pixel, and the loop over the bytes in steps of four.\<close>

definition skinTone :: "nat \<Rightarrow> nat \<Rightarrow> nat \<Rightarrow> bool" where
  "skinTone r g b =
     (r > 95 \<and> g > 40 \<and> b > 20 \<and> r > g \<and> r > b \<and> \<bar>int r - int g\<bar> > 15)"

fun countSkin :: "nat list \<Rightarrow> nat" where
  "countSkin (r # g # b # a # rest) = (if skinTone r g b then 1 else 0) + countSkin rest"
| "countSkin [r, g, b] = (if skinTone r g b then 1 else 0)"
| "countSkin _ = 0"

text \<open>
  \<open>skinPixels / (canvas.width * canvas.height) < 0.02\<close>, read over the reals (the
  source divides and compares doubles).
\<close>

definition skinRatioLow :: "tick_env \<Rightarrow> nat list \<Rightarrow> bool" where
  "skinRatioLow env bytes =
     (real (countSkin bytes)
        / real (orDefault (videoWidth env) 640 * orDefault (videoHeight env) 480) < 2 / 100)"

text \<open>The \<open>catch\<close> of the tick.\<close>

definition detectionError :: "recorder \<Rightarrow> recorder" where
  "detectionError st = st\<lparr>console := console st @ [''Face detection error:'']\<rparr>"

text \<open>
  The interval callback of \<open>startFaceDetection(videoEl, attemptId)\<close>: the native
  detector where the window has one, the pixel heuristic otherwise.
\<close>

definition faceTick :: "browser \<Rightarrow> nat \<Rightarrow> tick_env \<Rightarrow> recorder \<Rightarrow> recorder" where
  "faceTick b aid env st =
     (if \<not> drawOk env then detectionError st
      else if hasFaceDetector b then
        (case detectResult env of
           None \<Rightarrow> detectionError st
         | Some n \<Rightarrow>
             (let st1 = st\<lparr>faceCount := n, proctoring := (proctoring st)\<lparr>face_count := n\<rparr>\<rparr>
              in if n = 0 then
                   sendFaceFlag (flagOk env) aid False n (t_now env)
                     (addViolation (t_now env) NoFaceMsg st1)
                 else if n > 1 then
                   sendFaceFlag (flagOk env) aid True n (t_now env)
                     (addViolation (t_now env) (MultipleFacesMsg n)
                        (st1\<lparr>proctoring := (proctoring st1)\<lparr>multiple_faces := True\<rparr>\<rparr>))
                 else st1\<lparr>proctoring := (proctoring st1)\<lparr>multiple_faces := False\<rparr>\<rparr>))
      else
        (case imageData env of
           None \<Rightarrow> detectionError st
         | Some bytes \<Rightarrow>
             if skinRatioLow env bytes
             then addViolation (t_now env) NoFaceMsg (st\<lparr>faceCount := 0\<rparr>)
             else st\<lparr>faceCount := 1\<rparr>))"


fun faceTicks :: "browser \<Rightarrow> nat \<Rightarrow> tick_env list \<Rightarrow> recorder \<Rightarrow> recorder" where
  "faceTicks b aid [] st = st"
| "faceTicks b aid (e # es) st = faceTicks b aid es (faceTick b aid e st)"


text \<open>A tick at time \<open>t\<close> on which the native detector reports \<open>n\<close> faces.\<close>

definition sees :: "int \<Rightarrow> nat \<Rightarrow> tick_env" where
  "sees t n = \<lparr>t_now = t, videoWidth = 640, videoHeight = 480, drawOk = True,
               detectResult = Some n, imageData = None, flagOk = True\<rparr>"

text \<open>A tick of the pixel heuristic on a frame of the given bytes, 2 by 1 pixels.\<close>

definition frame :: "nat list \<Rightarrow> tick_env" where
  "frame bytes = \<lparr>t_now = 0, videoWidth = 2, videoHeight = 1, drawOk = True,
                  detectResult = None, imageData = Some bytes, flagOk = True\<rparr>"

definition nativeBrowser :: browser where
  "nativeBrowser = \<lparr>hasSpeechSynthesis = True, hasFaceDetector = True\<rparr>"

definition plainBrowser :: browser where
  "plainBrowser = \<lparr>hasSpeechSynthesis = False, hasFaceDetector = False\<rparr>"

subsection \<open>Starting, the question cursor, stopping\<close>

text \<open>
  What the user and the browser answer during \<open>startInterview\<close>: the \<open>confirm\<close>
  dialog, \<open>getUserMedia\<close>, the start POST (\<open>None\<close> when it rejects, else the attempt
  id), \<open>video.play()\<close>, building and starting the camera recorder, \<open>getDisplayMedia\<close>,
  building and starting the screen recorder.
\<close>

record start_env =
  confirmAnswer :: bool
  userMediaOk :: bool
  startResponse :: "nat option"
  playOk :: bool
  videoRecorderOk :: bool
  displayMediaOk :: bool
  screenRecorderOk :: bool

text \<open>
  The outer \<open>catch\<close> of \<open>startInterview\<close>; the alert ends with a message drawn
  from the error, left out here.
\<close>

definition startFailed :: "recorder \<Rightarrow> recorder" where
  "startFailed st =
     st\<lparr>console := console st @ [''Failed to start interview:''],
        alerts := alerts st @ [''Failed to start interview: '']\<rparr>"

definition startInterview :: "nat option \<Rightarrow> start_env \<Rightarrow> recorder \<Rightarrow> recorder" where
  "startInterview simulationId env st =
     (case simulationId of
        None \<Rightarrow> st\<lparr>alerts := alerts st @ [''Cannot start interview: No simulation available'']\<rparr>
      | Some sim \<Rightarrow>
          if \<not> confirmAnswer env
          then st\<lparr>alerts := alerts st @
                  [''Camera and microphone access is required to start the interview.'']\<rparr>
          else
            (let st1 = st\<lparr>deviceCalls := deviceCalls st @ [GetUserMedia]\<rparr>
             in if \<not> userMediaOk env
                then st1\<lparr>alerts := alerts st1 @
                          [''Failed to access camera/microphone. Please check your browser permissions and try again.''],
                         console := console st1 @ [''Media permission error:'']\<rparr>
                else
                  (case apiPost (startResponse env \<noteq> None) (StartAttempt sim)
                          (st1\<lparr>console := console st1 @
                                  [''Starting interview with simulation_id:'']\<rparr>) of
                     (Inl _, st2) \<Rightarrow> startFailed st2
                   | (Inr _, st2) \<Rightarrow>
                       (case startResponse env of
                          None \<Rightarrow> startFailed st2
                        | Some aid \<Rightarrow>
                            (let st3 = st2\<lparr>attemptId := Some aid, videoSrc := True\<rparr>
                             in if \<not> playOk env \<or> \<not> videoRecorderOk env then startFailed st3
                                else
                                  (let st4 = st3\<lparr>mediaRecorderRef :=
                                                   Some (MediaRecorder Recording aid),
                                                 deviceCalls := deviceCalls st3 @ [GetDisplayMedia]\<rparr>;
                                       st5 = (if displayMediaOk env \<and> screenRecorderOk env
                                              then st4\<lparr>screenRecorderRef :=
                                                        Some (MediaRecorder Recording aid)\<rparr>
                                              else st4\<lparr>console := console st4 @
                                                        [''Screen sharing not available or denied:'']\<rparr>)
                                   in st5\<lparr>faceDetectIntervalRef := Some aid,
                                          pasteListeners := pasteListeners st5 + 1,
                                          recording := True,
                                          timers := timers st5 @ [Welcome, FirstQuestion]\<rparr>))))))"

text \<open>
  \<open>nextQuestion\<close>. \<open>questions.length - 1\<close> is \<open>-1\<close> for an empty list, so the
  comparison is made over the integers.
\<close>

definition closingMessage :: string where
  "closingMessage = ''Great! That's all the questions. Please click Stop and Submit when you're ready.''"

definition nextQuestion :: "browser \<Rightarrow> recorder \<Rightarrow> recorder" where
  "nextQuestion b st =
     (if int (currentQuestion st) < int (length (questions st)) - 1
      then (let next = currentQuestion st + 1
            in speakQuestion b (questions st ! next) (st\<lparr>currentQuestion := next\<rparr>))
      else speakQuestion b closingMessage st)"

text \<open>\<open>stopFaceDetection\<close>\<close>

definition stopFaceDetection :: "recorder \<Rightarrow> recorder" where
  "stopFaceDetection st =
     (case faceDetectIntervalRef st of None \<Rightarrow> st
      | Some _ \<Rightarrow> st\<lparr>faceDetectIntervalRef := None\<rparr>)"

text \<open>
  The first two lines of \<open>stopInterview\<close>: each recorder is stopped unless its ref is
  empty or its state is "inactive".
\<close>

definition stopRecorders :: "recorder \<Rightarrow> recorder" where
  "stopRecorders st =
     (let st1 = (case mediaRecorderRef st of
                   None \<Rightarrow> st
                 | Some r \<Rightarrow>
                     if rstate r \<noteq> Inactive
                     then st\<lparr>mediaRecorderRef := Some (MediaRecorder Inactive (rattempt r)),
                             recorderStops := recorderStops st @ [''video'']\<rparr>
                     else st)
      in case screenRecorderRef st1 of
           None \<Rightarrow> st1
         | Some r \<Rightarrow>
             if rstate r \<noteq> Inactive
             then st1\<lparr>screenRecorderRef := Some (MediaRecorder Inactive (rattempt r)),
                      recorderStops := recorderStops st1 @ [''screen'']\<rparr>
             else st1)"

text \<open>
  \<open>stopInterview\<close>: the recorders and the interval go. The \<open>onPaste\<close> it hands to
  \<open>removeEventListener\<close> is the one of a render that shows the Stop button, while the
  registered ones come from renders that showed Start; it is none of them, so no
  listener is removed. Then the summary upload and the finish POST are awaited with no
  \<open>try\<close> around them, so a rejection of either rejects \<open>stopInterview\<close> at that
  point.
\<close>

definition stopInterview :: "bool \<Rightarrow> bool \<Rightarrow> recorder \<Rightarrow> (error + unit) \<times> recorder" where
  "stopInterview uploadOk finishOk st =
     (let st3 = stopFaceDetection (stopRecorders st)
      in case apiPost uploadOk
                (UploadChunk (attemptId st3) ''editor_events''
                   (Summary (paste_count st3) (proctoring st3))) st3 of
           (Inl e, st4) \<Rightarrow> (Inl e, st4)
         | (Inr _, st4) \<Rightarrow>
             (case apiPost finishOk (FinishAttempt (attemptId st4)) st4 of
                (Inl e, st5) \<Rightarrow> (Inl e, st5)
              | (Inr _, st5) \<Rightarrow>
                  (Inr (), st5\<lparr>alerts := alerts st5 @ [''Interview submitted successfully!''],
                              recording := False\<rparr>)))"

text \<open>A recorder ref that \<open>stopInterview\<close> would leave alone: empty, or inactive.\<close>

definition inactive :: "media_recorder option \<Rightarrow> bool" where
  "inactive r = (case r of None \<Rightarrow> True | Some m \<Rightarrow> rstate m = Inactive)"

subsection \<open>Events while the component is mounted\<close>

text \<open>
  The \<open>ondataavailable\<close> handler of a recorder: \<open>d\<close> is the size of \<open>e.data\<close>, \<open>None\<close>
  when there is no data; the upload is not awaited.
\<close>

definition dataAvailable :: "string \<Rightarrow> nat \<Rightarrow> nat option \<Rightarrow> bool \<Rightarrow> recorder \<Rightarrow> recorder" where
  "dataAvailable kind aid d ok st =
     (case d of
        None \<Rightarrow> st
      | Some n \<Rightarrow> if n > 0 then snd (uploadChunk ok (Some aid) kind (Blob n) st) else st)"

definition onBlur :: "int \<Rightarrow> recorder \<Rightarrow> recorder" where
  "onBlur now st =
     addViolation now TabSwitched
       (st\<lparr>proctoring := (proctoring st)\<lparr>tab_blur_count := tab_blur_count (proctoring st) + 1\<rparr>\<rparr>)"

definition onPaste :: "int \<Rightarrow> recorder \<Rightarrow> recorder" where
  "onPaste now st = addViolation now PasteMsg (st\<lparr>paste_count := paste_count st + 1\<rparr>)"

text \<open>
  What can happen between start and stop. A recorder's data event reaches its handler
  only if that recorder was built; a tick needs the interval; a paste runs every
  registered listener. Data events carry the size of the segment and the outcome of its
  upload.
\<close>

datatype event =
    VideoData "nat option" bool
  | ScreenData "nat option" bool
  | FaceTick tick_env
  | Blur int
  | PasteEv int

fun step :: "browser \<Rightarrow> event \<Rightarrow> recorder \<Rightarrow> recorder" where
  "step b (VideoData d ok) st =
     (case mediaRecorderRef st of
        None \<Rightarrow> st
      | Some r \<Rightarrow> dataAvailable ''video'' (rattempt r) d ok st)"
| "step b (ScreenData d ok) st =
     (case screenRecorderRef st of
        None \<Rightarrow> st
      | Some r \<Rightarrow> dataAvailable ''screen'' (rattempt r) d ok st)"
| "step b (FaceTick env) st =
     (case faceDetectIntervalRef st of
        None \<Rightarrow> st
      | Some aid \<Rightarrow> faceTick b aid env st)"
| "step b (Blur now) st = onBlur now st"
| "step b (PasteEv now) st = (onPaste now ^^ pasteListeners st) st"

fun run :: "browser \<Rightarrow> event list \<Rightarrow> recorder \<Rightarrow> recorder" where
  "run b [] st = st"
| "run b (ev # evs) st = run b evs (step b ev st)"


text \<open>The uploads of the final summary, and the finish calls, among a list of requests.\<close>

fun isSummary :: "request \<Rightarrow> bool" where
  "isSummary (UploadChunk aid kind body) = (kind = ''editor_events'')"
| "isSummary _ = False"

fun isFinish :: "request \<Rightarrow> bool" where
  "isFinish (FinishAttempt aid) = True"
| "isFinish _ = False"


definition allGranted :: start_env where
  "allGranted = \<lparr>confirmAnswer = True, userMediaOk = True, startResponse = Some 7,
                  playOk = True, videoRecorderOk = True, displayMediaOk = True,
                  screenRecorderOk = True\<rparr>"

text \<open>A freshly mounted component after a start with everything granted.\<close>

definition started :: recorder where
  "started = startInterview (Some 1) allGranted recorder0"

text \<open>A room whose log holds one NO_FACE flag, stamped at time 0.\<close>

definition roomFlagged :: room where
  "roomFlagged = flagStep (noFaceCall 0) room0"

definition declined :: start_env where
  "declined = \<lparr>confirmAnswer = False, userMediaOk = True, startResponse = Some 7,
                playOk = True, videoRecorderOk = True, displayMediaOk = True,
                screenRecorderOk = True\<rparr>"



text \<open>Two frames of two pixels: one skin-toned pixel and one black; both black.\<close>

definition skinFrame :: tick_env where
  "skinFrame = frame [200, 100, 50, 255, 0, 0, 0, 255]"

definition darkFrame :: tick_env where
  "darkFrame = frame [0, 0, 0, 255, 0, 0, 0, 255]"

text \<open>A session at its third question of five.\<close>

definition fiveQuestions :: recorder where
  "fiveQuestions = recorder0\<lparr>questions := [''q0'', ''q1'', ''q2'', ''q3'', ''q4''],
                              currentQuestion := 2\<rparr>"

section \<open>Properties of the violation log\<close>

lemma flagStep_unsuppressed_flags:
  "recentFlag (c_tnow c) (c_type c) (proctoringFlags st) = None \<Longrightarrow>
   proctoringFlags (flagStep c st) = proctoringFlags st @
     [\<lparr>ftype = c_type c, description = c_desc c, timestamp = c_tcall c,
       questionIndex = c_index c\<rparr>]"
  by (simp add: flagStep_def addProctoringFlag_def sendProctoringFlag_def Let_def)

lemma flagStep_unsuppressed_toasts:
  "recentFlag (c_tnow c) (c_type c) (proctoringFlags st) = None \<Longrightarrow>
   toasts (flagStep c st) = toasts st @
     (if c_type c \<noteq> ''NO_FACE'' \<or> noFaceCount (proctoringFlags st) mod 3 = 0
      then [c_desc c] else [])"
  by (simp add: flagStep_def addProctoringFlag_def sendProctoringFlag_def Let_def)

lemma noFaceCount_snoc:
  "noFaceCount (fs @ [f]) = noFaceCount fs + (if ftype f = ''NO_FACE'' then 1 else 0)"
  by (simp add: noFaceCount_def)

lemma appended_unsuppressed:
  "unsuppressed cs st \<Longrightarrow> appended cs st = replicate (length cs) True"
  by (induction cs arbitrary: st) (simp_all add: flagStep_unsuppressed_flags)

lemma notified_no_face:
  "unsuppressed cs st \<Longrightarrow> \<forall>c \<in> set cs. c_type c = ''NO_FACE'' \<Longrightarrow>
   notified cs st =
     map (\<lambda>i. (noFaceCount (proctoringFlags st) + i) mod 3 = 0) [0..<length cs]"
proof (induction cs arbitrary: st)
  case Nil
  then show ?case by simp
next
  case (Cons c cs)
  let ?k = "noFaceCount (proctoringFlags st)"
  have un: "recentFlag (c_tnow c) (c_type c) (proctoringFlags st) = None"
    and rest: "unsuppressed cs (flagStep c st)"
    using Cons.prems(1) by simp_all
  have ty: "c_type c = ''NO_FACE''" and tys: "\<forall>c \<in> set cs. c_type c = ''NO_FACE''"
    using Cons.prems(2) by simp_all
  have cnt: "noFaceCount (proctoringFlags (flagStep c st)) = Suc ?k"
    by (simp add: flagStep_unsuppressed_flags [OF un] noFaceCount_snoc ty)
  have hd: "(length (toasts (flagStep c st)) = Suc (length (toasts st))) = (?k mod 3 = 0)"
    by (simp add: flagStep_unsuppressed_toasts [OF un] ty)
  have tl: "notified cs (flagStep c st) = map (\<lambda>i. (Suc ?k + i) mod 3 = 0) [0..<length cs]"
    using Cons.IH [OF rest tys] cnt by simp
  have shift: "map (\<lambda>i. (?k + i) mod 3 = 0) [0..<length (c # cs)] =
               (?k mod 3 = 0) # map (\<lambda>i. (Suc ?k + i) mod 3 = 0) [0..<length cs]"
    by (simp add: upt_conv_Cons map_Suc_upt [symmetric] del: upt_Suc)
  show ?case using hd tl shift by simp
qed

lemma tenTicks_unsuppressed: "unsuppressed tenTicks room0"
  by (simp add: tenTicks_def noFaceCall_def room0_def flagStep_def addProctoringFlag_def
      sendProctoringFlag_def recentFlag_def noFaceCount_def Let_def)

lemma laterTicks_unsuppressed: "unsuppressed laterTicks roomFlagged"
  by (simp add: laterTicks_def roomFlagged_def noFaceCall_def room0_def flagStep_def
      addProctoringFlag_def sendProctoringFlag_def recentFlag_def noFaceCount_def Let_def)

lemma roomFlagged_noFaceCount: "noFaceCount (proctoringFlags roomFlagged) = 1"
  by (simp add: roomFlagged_def noFaceCall_def room0_def flagStep_def addProctoringFlag_def
      sendProctoringFlag_def recentFlag_def noFaceCount_def Let_def)

text \<open>
  C5, as the code has it. In any run of NO_FACE calls none of which is suppressed, every
  call is appended to the log, and a toast is raised for exactly those calls that find
  the number of NO_FACE entries in the log, counted over the whole log and not over the
  run, to be a multiple of three: with \<open>k\<close> such entries before the run, the calls at
  the positions \<open>i\<close> of the run (from 0) with \<open>k + i\<close> a multiple of three. In a run
  that starts on a log with no NO_FACE entry these are occurrences 1, 4, 7, 10, ...
\<close>

theorem no_face_notified_by_log_count:
  assumes "unsuppressed cs st"
    and "\<forall>c \<in> set cs. c_type c = ''NO_FACE''"
  shows "appended cs st = replicate (length cs) True
       \<and> notified cs st
           = map (\<lambda>i. (noFaceCount (proctoringFlags st) + i) mod 3 = 0) [0..<length cs]"
  using appended_unsuppressed [OF assms(1)] notified_no_face [OF assms(1) assms(2)]
  by simp

text \<open>
  Ten NO_FACE calls 5000 ms apart on an empty log: ten entries, and toasts at
  occurrences 1, 4, 7 and 10.
\<close>

theorem no_face_notified_by_log_count_witness:
  "unsuppressed tenTicks room0 \<and> list_all (\<lambda>c. c_type c = ''NO_FACE'') tenTicks
   \<and> appended tenTicks room0 = replicate 10 True
   \<and> notified tenTicks room0
       = [True, False, False, True, False, False, True, False, False, True]"
proof -
  have h2: "\<forall>c \<in> set tenTicks. c_type c = ''NO_FACE''"
    by (simp add: tenTicks_def noFaceCall_def)
  have h3: "noFaceCount (proctoringFlags room0) = 0"
    by (simp add: room0_def noFaceCount_def)
  have len: "length tenTicks = 10"
    by (simp add: tenTicks_def)
  have m: "map (\<lambda>i. i mod 3 = 0) [0..<10::nat]
             = [True, False, False, True, False, False, True, False, False, True]"
    by (simp add: upt_conv_Cons del: upt_Suc)
  have h2': "list_all (\<lambda>c. c_type c = ''NO_FACE'') tenTicks"
    using h2 by (simp add: list_all_iff)
  show ?thesis
    using no_face_notified_by_log_count [OF tenTicks_unsuppressed h2]
      tenTicks_unsuppressed h2' h3 len m
    by simp
qed

text \<open>
  C5 as stated fails: on a log that already holds one NO_FACE entry, stamped 0, a run of
  four unsuppressed NO_FACE calls from 10000 ms on is appended whole, but the toast comes
  with the third call of the run only, not with the first and the fourth.
\<close>

theorem no_face_after_earlier_flag_counterexample:
  "unsuppressed laterTicks roomFlagged
   \<and> list_all (\<lambda>c. c_type c = ''NO_FACE'') laterTicks
   \<and> appended laterTicks roomFlagged = [True, True, True, True]
   \<and> notified laterTicks roomFlagged = [False, False, True, False]"
proof -
  have ty: "\<forall>c \<in> set laterTicks. c_type c = ''NO_FACE''"
    by (simp add: laterTicks_def noFaceCall_def)
  have len: "length laterTicks = 4"
    by (simp add: laterTicks_def)
  have a: "appended laterTicks roomFlagged = [True, True, True, True]"
    using appended_unsuppressed [OF laterTicks_unsuppressed] len
    by (simp add: numeral_eq_Suc)
  have n: "notified laterTicks roomFlagged = [False, False, True, False]"
    using notified_no_face [OF laterTicks_unsuppressed ty] len roomFlagged_noFaceCount
    by (simp add: upt_conv_Cons del: upt_Suc)
  show ?thesis
    using laterTicks_unsuppressed ty a n by (simp add: list_all_iff)
qed

section \<open>Suppression of repeated flags\<close>

lemma recentFlag_None_iff:
  "recentFlag now ty prev = None \<longleftrightarrow>
   \<not> (\<exists>f \<in> set prev. ftype f = ty \<and> now - timestamp f < 5000)"
  by (auto simp: recentFlag_def find_None_iff)

lemma add_suppressed:
  "recentFlag tnow ty (proctoringFlags st) = Some f \<Longrightarrow>
   addProctoringFlag qi tcall tnow ok ty desc st = st"
  by (simp add: addProctoringFlag_def)

lemma add_unsuppressed:
  assumes "recentFlag tnow ty (proctoringFlags st) = None"
  shows "proctoringFlags (addProctoringFlag qi tcall tnow ok ty desc st)
           = proctoringFlags st @ [\<lparr>ftype = ty, description = desc, timestamp = tcall,
                                     questionIndex = qi\<rparr>]"
    and "proctorPosts (addProctoringFlag qi tcall tnow ok ty desc st)
           = proctorPosts st @ [\<lparr>ftype = ty, description = desc, timestamp = tcall,
                                  questionIndex = qi\<rparr>]"
    and "toasts (addProctoringFlag qi tcall tnow ok ty desc st)
           = toasts st @ (if ty \<noteq> ''NO_FACE'' \<or> noFaceCount (proctoringFlags st) mod 3 = 0
                          then [desc] else [])"
  using assms by (simp_all add: addProctoringFlag_def sendProctoringFlag_def Let_def)

lemma roomFlagged_flags:
  "proctoringFlags roomFlagged =
     [\<lparr>ftype = ''NO_FACE'', description = ''No face detected in frame'',
       timestamp = 0, questionIndex = 0\<rparr>]"
  by (simp add: roomFlagged_def noFaceCall_def room0_def flagStep_def addProctoringFlag_def
        sendProctoringFlag_def recentFlag_def noFaceCount_def Let_def)

text \<open>
  C1, as the code has it. In InterviewRoom, a call of \<open>addProctoringFlag\<close> made while
  the log holds a flag of the same type less than 5000 ms old changes nothing: no entry,
  no POST, no toast. A call that finds none is appended and posted, stamped with the
  question index its closure holds, and raises a toast unless it is a NO_FACE call made
  while the number of NO_FACE entries is not a multiple of three. In InterviewRecorder, \<open>addViolation\<close> appends every call and raises the
  warning banner, whatever the log holds.
\<close>

theorem suppression_window:
  "(if \<exists>f \<in> set (proctoringFlags st). ftype f = ty \<and> tnow - timestamp f < 5000
    then addProctoringFlag qi tcall tnow ok ty desc st = st
    else proctoringFlags (addProctoringFlag qi tcall tnow ok ty desc st)
           = proctoringFlags st @ [\<lparr>ftype = ty, description = desc, timestamp = tcall,
                                     questionIndex = qi\<rparr>]
       \<and> proctorPosts (addProctoringFlag qi tcall tnow ok ty desc st)
           = proctorPosts st @ [\<lparr>ftype = ty, description = desc, timestamp = tcall,
                                  questionIndex = qi\<rparr>]
       \<and> toasts (addProctoringFlag qi tcall tnow ok ty desc st)
           = toasts st @ (if ty \<noteq> ''NO_FACE'' \<or> noFaceCount (proctoringFlags st) mod 3 = 0
                          then [desc] else []))
   \<and> violations (addViolation now m r) = violations r @ [\<lparr>message = m, vtime = now\<rparr>]
   \<and> showWarning (addViolation now m r)"
proof -
  let ?recent = "\<exists>f \<in> set (proctoringFlags st). ftype f = ty \<and> tnow - timestamp f < 5000"
  have log: "violations (addViolation now m r) = violations r @ [\<lparr>message = m, vtime = now\<rparr>]
             \<and> showWarning (addViolation now m r)"
    by (simp add: addViolation_def)
  show ?thesis
  proof (cases "recentFlag tnow ty (proctoringFlags st)")
    case None
    then have no: "\<not> ?recent"
      by (simp add: recentFlag_None_iff)
    show ?thesis
      using add_unsuppressed [OF None, of qi tcall ok desc] log
      by (simp only: no if_False simp_thms)
  next
    case (Some f)
    then have yes: "?recent"
      using recentFlag_None_iff [of tnow ty "proctoringFlags st"] by simp
    show ?thesis
      using add_suppressed [OF Some, of qi tcall ok desc] log
      by (simp only: yes if_True simp_thms)
  qed
qed

text \<open>
  With a NO_FACE flag stamped 0 in the log: a NO_FACE call at 3000 leaves the room as it
  is; one at 5000 is appended, and raises no toast (one NO_FACE entry is logged).
\<close>

theorem suppression_window_witness:
  "addProctoringFlag 0 3000 3000 True ''NO_FACE'' ''No face detected in frame'' roomFlagged
     = roomFlagged
   \<and> length (proctoringFlags (addProctoringFlag 0 5000 5000 True ''NO_FACE''
               ''No face detected in frame'' roomFlagged)) = 2
   \<and> toasts (addProctoringFlag 0 5000 5000 True ''NO_FACE''
               ''No face detected in frame'' roomFlagged) = toasts roomFlagged"
  using suppression_window [where st = roomFlagged and ty = "''NO_FACE''" and tnow = 3000
          and qi = 0 and tcall = 3000 and ok = True and desc = "''No face detected in frame''"
          and now = 0 and m = NoFaceMsg and r = recorder0]
    suppression_window [where st = roomFlagged and ty = "''NO_FACE''" and tnow = 5000
          and qi = 0 and tcall = 5000 and ok = True and desc = "''No face detected in frame''"
          and now = 0 and m = NoFaceMsg and r = recorder0]
  by (simp add: roomFlagged_flags noFaceCount_def)

text \<open>
  C1 as stated fails on InterviewRecorder: two ticks of the detection loop 2000 ms apart,
  each finding no face, leave two entries in the violation log and schedule the banner
  twice.
\<close>

theorem addViolation_unsuppressed_counterexample:
  "violations (faceTicks nativeBrowser 7 [sees 0 0, sees 2000 0] recorder0)
     = [\<lparr>message = NoFaceMsg, vtime = 0\<rparr>, \<lparr>message = NoFaceMsg, vtime = 2000\<rparr>]
   \<and> timers (faceTicks nativeBrowser 7 [sees 0 0, sees 2000 0] recorder0)
     = [HideWarning, HideWarning]"
  by (simp add: faceTick_def sees_def nativeBrowser_def recorder0_def addViolation_def
        sendFaceFlag_def apiPost_def Let_def)

section \<open>The multiple-faces flag\<close>








section \<open>Starting without the screen\<close>

lemma onPaste_repeated [simp]:
  "mediaRecorderRef ((onPaste now ^^ k) st) = mediaRecorderRef st"
  "screenRecorderRef ((onPaste now ^^ k) st) = screenRecorderRef st"
  "recording ((onPaste now ^^ k) st) = recording st"
  "posts ((onPaste now ^^ k) st) = posts st"
  by (induction k) (simp_all add: onPaste_def addViolation_def)

lemma step_mediaRecorderRef [simp]: "mediaRecorderRef (step b ev st) = mediaRecorderRef st"
  by (cases ev)
     (simp_all add: dataAvailable_def uploadChunk_def apiPost_def faceTick_def
        detectionError_def sendFaceFlag_def addViolation_def onBlur_def Let_def
        split: option.splits)

lemma step_screenRecorderRef [simp]: "screenRecorderRef (step b ev st) = screenRecorderRef st"
  by (cases ev)
     (simp_all add: dataAvailable_def uploadChunk_def apiPost_def faceTick_def
        detectionError_def sendFaceFlag_def addViolation_def onBlur_def Let_def
        split: option.splits)

lemma step_recording [simp]: "recording (step b ev st) = recording st"
  by (cases ev)
     (simp_all add: dataAvailable_def uploadChunk_def apiPost_def faceTick_def
        detectionError_def sendFaceFlag_def addViolation_def onBlur_def Let_def
        split: option.splits)

lemma run_refs [simp]:
  "mediaRecorderRef (run b evs st) = mediaRecorderRef st"
  "screenRecorderRef (run b evs st) = screenRecorderRef st"
  "recording (run b evs st) = recording st"
  by (induction evs arbitrary: st) simp_all










section \<open>Stopping twice\<close>

lemma stopRecorders_fields [simp]:
  "attemptId (stopRecorders st) = attemptId st"
  "paste_count (stopRecorders st) = paste_count st"
  "proctoring (stopRecorders st) = proctoring st"
  "posts (stopRecorders st) = posts st"
  "faceDetectIntervalRef (stopRecorders st) = faceDetectIntervalRef st"
  by (simp_all add: stopRecorders_def Let_def split: option.splits)

lemma stopFaceDetection_fields [simp]:
  "attemptId (stopFaceDetection st) = attemptId st"
  "paste_count (stopFaceDetection st) = paste_count st"
  "proctoring (stopFaceDetection st) = proctoring st"
  "posts (stopFaceDetection st) = posts st"
  "mediaRecorderRef (stopFaceDetection st) = mediaRecorderRef st"
  "screenRecorderRef (stopFaceDetection st) = screenRecorderRef st"
  "recorderStops (stopFaceDetection st) = recorderStops st"
  "faceDetectIntervalRef (stopFaceDetection st) = None"
  by (simp_all add: stopFaceDetection_def split: option.splits)

lemma stopRecorders_inactive:
  "inactive (mediaRecorderRef (stopRecorders st))"
  "inactive (screenRecorderRef (stopRecorders st))"
  by (simp_all add: stopRecorders_def inactive_def Let_def split: option.splits)

lemma stopRecorders_idle:
  "inactive (mediaRecorderRef st) \<Longrightarrow> inactive (screenRecorderRef st) \<Longrightarrow> stopRecorders st = st"
  by (simp add: stopRecorders_def inactive_def Let_def split: option.splits)

lemma stopInterview_posts:
  "posts (snd (stopInterview u f st)) = posts st @
     UploadChunk (attemptId st) ''editor_events'' (Summary (paste_count st) (proctoring st))
       # (if u then [FinishAttempt (attemptId st)] else [])"
  by (simp add: stopInterview_def apiPost_def Let_def)

lemma stopInterview_result:
  "fst (stopInterview u f st) = (if u \<and> f then Inr () else Inl NetworkError)"
  by (simp add: stopInterview_def apiPost_def Let_def)

lemma stopInterview_refs:
  "mediaRecorderRef (snd (stopInterview u f st)) = mediaRecorderRef (stopRecorders st)"
  "screenRecorderRef (snd (stopInterview u f st)) = screenRecorderRef (stopRecorders st)"
  "recorderStops (snd (stopInterview u f st)) = recorderStops (stopRecorders st)"
  "faceDetectIntervalRef (snd (stopInterview u f st)) = None"
  "attemptId (snd (stopInterview u f st)) = attemptId st"
  "paste_count (snd (stopInterview u f st)) = paste_count st"
  "proctoring (snd (stopInterview u f st)) = proctoring st"
  by (simp_all add: stopInterview_def apiPost_def Let_def)

text \<open>
  C4, as the code has it. After one call of \<open>stopInterview\<close>, whatever its outcome, a
  second call stops no recorder, leaves both recorder refs as they are and finds no
  detection interval. It does post the \<open>editor_events\<close> summary again and, if that
  upload succeeds, the finish call again; and it resolves only if both of its POSTs do,
  rejecting otherwise.
\<close>

theorem double_stop:
  "recorderStops (snd (stopInterview u2 f2 (snd (stopInterview u1 f1 st))))
     = recorderStops (snd (stopInterview u1 f1 st))
   \<and> mediaRecorderRef (snd (stopInterview u2 f2 (snd (stopInterview u1 f1 st))))
     = mediaRecorderRef (snd (stopInterview u1 f1 st))
   \<and> screenRecorderRef (snd (stopInterview u2 f2 (snd (stopInterview u1 f1 st))))
     = screenRecorderRef (snd (stopInterview u1 f1 st))
   \<and> faceDetectIntervalRef (snd (stopInterview u1 f1 st)) = None
   \<and> posts (snd (stopInterview u2 f2 (snd (stopInterview u1 f1 st))))
     = posts (snd (stopInterview u1 f1 st)) @
         UploadChunk (attemptId st) ''editor_events'' (Summary (paste_count st) (proctoring st))
           # (if u2 then [FinishAttempt (attemptId st)] else [])
   \<and> fst (stopInterview u2 f2 (snd (stopInterview u1 f1 st)))
     = (if u2 \<and> f2 then Inr () else Inl NetworkError)"
proof -
  let ?st1 = "snd (stopInterview u1 f1 st)"
  have idle: "stopRecorders ?st1 = ?st1"
    by (rule stopRecorders_idle) (simp_all add: stopInterview_refs stopRecorders_inactive)
  show ?thesis
    by (simp add: stopInterview_refs(1-4) [of u2 f2 ?st1] idle stopInterview_refs(4-7) [of u1 f1 st]
          stopInterview_posts [of u2 f2 ?st1] stopInterview_result)
qed

text \<open>
  A started session stopped twice, both summary uploads and the first finish succeeding:
  the recorders are stopped once each, and the requests of the second call follow those
  of the first.
\<close>

theorem double_stop_witness:
  "recorderStops (snd (stopInterview True False (snd (stopInterview True True started))))
     = [''video'', ''screen'']
   \<and> posts (snd (stopInterview True False (snd (stopInterview True True started))))
     = posts (snd (stopInterview True True started)) @
         [UploadChunk (Some 7) ''editor_events''
            (Summary 0 \<lparr>tab_blur_count = 0, multiple_faces = False, face_count = 0\<rparr>),
          FinishAttempt (Some 7)]
   \<and> fst (stopInterview True False (snd (stopInterview True True started))) = Inl NetworkError"
proof -
  have s: "attemptId started = Some 7" "paste_count started = 0"
    "proctoring started = \<lparr>tab_blur_count = 0, multiple_faces = False, face_count = 0\<rparr>"
    "recorderStops (stopRecorders started) = [''video'', ''screen'']"
    by (simp_all add: started_def startInterview_def allGranted_def recorder0_def apiPost_def
          stopRecorders_def Let_def)
  show ?thesis
    using double_stop [of True False True True started] s
    by (simp add: stopInterview_refs(3) [of True True started])
qed

text \<open>
  C4 as stated fails: stopping a started session twice, every POST succeeding, uploads
  the summary twice and calls finish twice; and a second stop whose upload is rejected
  rejects.
\<close>

theorem double_stop_counterexample:
  "length (filter isSummary (posts (snd (stopInterview True True (snd (stopInterview True True started)))))) = 2
   \<and> length (filter isFinish (posts (snd (stopInterview True True (snd (stopInterview True True started)))))) = 2
   \<and> fst (stopInterview False True (snd (stopInterview True True started))) = Inl NetworkError"
  by (simp add: stopInterview_posts stopInterview_refs stopInterview_result started_def startInterview_def allGranted_def recorder0_def apiPost_def Let_def)

section \<open>Declining the pre-prompt\<close>

text \<open>
  C6. If the user declines the confirmation shown before any device access,
  \<open>startInterview\<close> does nothing but raise one alert: no device request is made
  (\<open>getUserMedia\<close> and \<open>getDisplayMedia\<close> are not called), nothing is posted, and the
  session stays as it was: not recording, no attempt, no recorder.
\<close>

theorem declined_preprompt:
  assumes "\<not> confirmAnswer env"
  shows "(\<exists>msg. startInterview sim env st = st\<lparr>alerts := alerts st @ [msg]\<rparr>)
       \<and> deviceCalls (startInterview sim env st) = deviceCalls st
       \<and> posts (startInterview sim env st) = posts st
       \<and> recording (startInterview sim env st) = recording st
       \<and> attemptId (startInterview sim env st) = attemptId st
       \<and> mediaRecorderRef (startInterview sim env st) = mediaRecorderRef st
       \<and> screenRecorderRef (startInterview sim env st) = screenRecorderRef st"
proof -
  obtain msg where m: "startInterview sim env st = st\<lparr>alerts := alerts st @ [msg]\<rparr>"
    using assms by (cases sim) (simp_all add: startInterview_def)
  show ?thesis
    by (auto simp add: m)
qed

text \<open>A fresh component whose user declines: no device call, no POST, not recording.\<close>

theorem declined_preprompt_witness:
  "deviceCalls (startInterview (Some 1) declined recorder0) = []
   \<and> posts (startInterview (Some 1) declined recorder0) = []
   \<and> \<not> recording (startInterview (Some 1) declined recorder0)
   \<and> attemptId (startInterview (Some 1) declined recorder0) = None"
proof -
  have d: "\<not> confirmAnswer declined"
    by (simp add: declined_def)
  show ?thesis
    using declined_preprompt [OF d, of "Some 1" recorder0]
    by (simp add: recorder0_def)
qed

section \<open>The question cursor\<close>

lemma speakQuestion_fields [simp]:
  "currentQuestion (speakQuestion b txt st) = currentQuestion st"
  "questions (speakQuestion b txt st) = questions st"
  "utterances (speakQuestion b txt st)
     = utterances st @ (if hasSpeechSynthesis b then [txt] else [])"
  by (simp_all add: speakQuestion_def)

lemma nextQuestion_questions [simp]: "questions (nextQuestion b st) = questions st"
  by (simp add: nextQuestion_def Let_def)

lemma nextQuestion_at_last:
  "Suc (currentQuestion st) = length (questions st) \<Longrightarrow>
   currentQuestion (nextQuestion b st) = currentQuestion st"
  by (simp add: nextQuestion_def Let_def)

lemma nextQuestion_repeated:
  "Suc (currentQuestion st) = length (questions st) \<Longrightarrow>
   currentQuestion ((nextQuestion b ^^ k) st) = currentQuestion st
   \<and> questions ((nextQuestion b ^^ k) st) = questions st"
  by (induction k) (simp_all add: nextQuestion_at_last)

text \<open>
  C8. With the cursor before the last question, \<open>nextQuestion\<close> moves it on by one and
  speaks the question it now points at; with the cursor at the last question it speaks
  the closing message and leaves the cursor where it is, however often it is called.
  Speaking is the call of \<open>speakQuestion\<close>, which hands the text to the speech
  synthesis where the window has one.
\<close>

theorem nextQuestion_cursor:
  "(Suc (currentQuestion st) < length (questions st) \<longrightarrow>
      nextQuestion b st
        = speakQuestion b (questions st ! Suc (currentQuestion st))
            (st\<lparr>currentQuestion := Suc (currentQuestion st)\<rparr>)
    \<and> currentQuestion (nextQuestion b st) = Suc (currentQuestion st)
    \<and> (hasSpeechSynthesis b \<longrightarrow>
          utterances (nextQuestion b st)
            = utterances st @ [questions st ! Suc (currentQuestion st)]))
   \<and> (Suc (currentQuestion st) = length (questions st) \<longrightarrow>
      nextQuestion b st = speakQuestion b closingMessage st
    \<and> currentQuestion (nextQuestion b st) = currentQuestion st
    \<and> currentQuestion ((nextQuestion b ^^ k) st) = currentQuestion st
    \<and> (hasSpeechSynthesis b \<longrightarrow>
          utterances (nextQuestion b st) = utterances st @ [closingMessage]))"
proof (intro conjI impI)
  assume lt: "Suc (currentQuestion st) < length (questions st)"
  then have c: "int (currentQuestion st) < int (length (questions st)) - 1"
    by simp
  show n: "nextQuestion b st
        = speakQuestion b (questions st ! Suc (currentQuestion st))
            (st\<lparr>currentQuestion := Suc (currentQuestion st)\<rparr>)"
    using c by (simp add: nextQuestion_def Let_def)
  show "currentQuestion (nextQuestion b st) = Suc (currentQuestion st)"
    by (simp add: n)
  show "utterances (nextQuestion b st) = utterances st @ [questions st ! Suc (currentQuestion st)]"
    if "hasSpeechSynthesis b"
    using that by (simp add: n)
next
  assume eq: "Suc (currentQuestion st) = length (questions st)"
  then have c: "\<not> int (currentQuestion st) < int (length (questions st)) - 1"
    by simp
  show n: "nextQuestion b st = speakQuestion b closingMessage st"
    using c by (simp add: nextQuestion_def)
  show "currentQuestion (nextQuestion b st) = currentQuestion st"
    by (simp add: n)
  show "currentQuestion ((nextQuestion b ^^ k) st) = currentQuestion st"
    using nextQuestion_repeated [OF eq] by simp
  show "utterances (nextQuestion b st) = utterances st @ [closingMessage]"
    if "hasSpeechSynthesis b"
    using that by (simp add: n)
qed

text \<open>
  Five questions: from the third, the cursor moves to the fourth, which is spoken; at the
  fifth, three more calls leave the cursor there and the closing message is spoken.
\<close>

theorem nextQuestion_cursor_witness:
  "currentQuestion (nextQuestion nativeBrowser fiveQuestions) = 3
   \<and> utterances (nextQuestion nativeBrowser fiveQuestions) = [''q3'']
   \<and> currentQuestion ((nextQuestion nativeBrowser ^^ 3) (fiveQuestions\<lparr>currentQuestion := 4\<rparr>)) = 4
   \<and> utterances (nextQuestion nativeBrowser (fiveQuestions\<lparr>currentQuestion := 4\<rparr>))
       = [closingMessage]"
proof -
  have q: "questions fiveQuestions = [''q0'', ''q1'', ''q2'', ''q3'', ''q4'']"
    "currentQuestion fiveQuestions = 2" "utterances fiveQuestions = []"
    by (simp_all add: fiveQuestions_def recorder0_def)
  have s: "hasSpeechSynthesis nativeBrowser"
    by (simp add: nativeBrowser_def)
  show ?thesis
    using nextQuestion_cursor [of fiveQuestions nativeBrowser 3]
      nextQuestion_cursor [of "fiveQuestions\<lparr>currentQuestion := 4\<rparr>" nativeBrowser 3] q s
    by simp
qed

section \<open>Uploading a chunk\<close>

text \<open>
  C9. \<open>uploadChunk\<close> makes one POST and resolves whether that POST resolves or is
  rejected: a rejection only adds a console warning, and the chunk is not posted again.
  A data event of either recorder, whatever becomes of its upload, leaves the recorder
  refs and the \<open>recording\<close> flag as they are.
\<close>

theorem uploadChunk_swallows:
  "fst (uploadChunk ok aid kind body st) = Inr ()
   \<and> snd (uploadChunk ok aid kind body st)
       = st\<lparr>posts := posts st @ [UploadChunk aid kind body],
            console := console st @ (if ok then [] else [''Chunk upload failed:''])\<rparr>
   \<and> mediaRecorderRef (step b (VideoData d ok) st) = mediaRecorderRef st
   \<and> screenRecorderRef (step b (ScreenData d ok) st) = screenRecorderRef st
   \<and> recording (step b (VideoData d ok) st) = recording st
   \<and> recording (step b (ScreenData d ok) st) = recording st"
proof -
  have "fst (uploadChunk ok aid kind body st) = Inr ()"
    by (simp add: uploadChunk_def apiPost_def)
  moreover have "snd (uploadChunk ok aid kind body st)
       = st\<lparr>posts := posts st @ [UploadChunk aid kind body],
            console := console st @ (if ok then [] else [''Chunk upload failed:''])\<rparr>"
    by (simp add: uploadChunk_def apiPost_def)
  ultimately show ?thesis
    by (simp del: step.simps)
qed


text \<open>In a started session a video chunk whose upload is rejected: resolved, one POST, one warning.\<close>

theorem uploadChunk_swallows_witness:
  "fst (uploadChunk False (Some 7) ''video'' (Blob 10) started) = Inr ()
   \<and> posts (snd (uploadChunk False (Some 7) ''video'' (Blob 10) started))
       = posts started @ [UploadChunk (Some 7) ''video'' (Blob 10)]
   \<and> console (snd (uploadChunk False (Some 7) ''video'' (Blob 10) started))
       = console started @ [''Chunk upload failed:'']
   \<and> recording (step nativeBrowser (VideoData (Some 10) False) started) = recording started"
  using uploadChunk_swallows [of False "Some 7" "''video''" "Blob 10" started nativeBrowser "Some 10"]
  by (simp del: step.simps)

section \<open>The pixel heuristic\<close>

lemma faceTick_fallback:
  assumes "\<not> hasFaceDetector b"
  shows "proctoring (faceTick b aid env st) = proctoring st"
    and "posts (faceTick b aid env st) = posts st"
    and "faceCount st \<le> 1 \<Longrightarrow> faceCount (faceTick b aid env st) \<le> 1"
    and "\<forall>v \<in> set (violations (faceTick b aid env st)).
           v \<in> set (violations st) \<or> message v = NoFaceMsg"
  using assms
  by (auto simp add: faceTick_def detectionError_def addViolation_def split: option.splits)

lemma faceTicks_fallback:
  assumes "\<not> hasFaceDetector b"
  shows "proctoring (faceTicks b aid envs st) = proctoring st
       \<and> posts (faceTicks b aid envs st) = posts st
       \<and> (faceCount st \<le> 1 \<longrightarrow> faceCount (faceTicks b aid envs st) \<le> 1)
       \<and> (\<forall>v \<in> set (violations (faceTicks b aid envs st)).
             v \<in> set (violations st) \<or> message v = NoFaceMsg)"
proof (induction envs arbitrary: st)
  case Nil
  show ?case by simp
next
  case (Cons e es)
  note t = faceTick_fallback [OF assms, where aid = aid and env = e and st = st]
  note ih = Cons.IH [of "faceTick b aid e st"]
  show ?case
    using t ih by simp blast
qed

lemma faceTick_heuristic:
  "\<not> hasFaceDetector b \<Longrightarrow> drawOk env \<Longrightarrow> imageData env = Some bytes \<Longrightarrow>
   faceCount (faceTick b aid env st) = (if skinRatioLow env bytes then 0 else 1)"
  by (simp add: faceTick_def addViolation_def)

text \<open>
  C10. Where the window has no native face detector, the face count shown stays 0 or 1
  over any sequence of ticks: a tick that reads the frame sets it to 0 when the skin ratio
  is below the threshold and to 1 otherwise. No such tick touches the \<open>proctoring\<close> ref,
  so \<open>multiple_faces\<close> is never set; none sends a face flag; and the only violation such a
  tick logs is the no-face one.
\<close>

theorem fallback_at_most_one_face:
  assumes "\<not> hasFaceDetector b" and "faceCount st \<le> 1"
  shows "faceCount (faceTicks b aid envs st) \<le> 1
       \<and> proctoring (faceTicks b aid envs st) = proctoring st
       \<and> posts (faceTicks b aid envs st) = posts st
       \<and> (\<forall>v \<in> set (violations (faceTicks b aid envs st)).
             v \<in> set (violations st) \<or> message v = NoFaceMsg)
       \<and> (drawOk env \<and> imageData env = Some bytes \<longrightarrow>
             faceCount (faceTick b aid env st) = (if skinRatioLow env bytes then 0 else 1))"
  using faceTicks_fallback [OF assms(1), of aid envs st] assms(2)
    faceTick_heuristic [OF assms(1), of env bytes aid st]
  by blast

lemma frames:
  "skinRatioLow darkFrame [0, 0, 0, 255, 0, 0, 0, 255]"
  "\<not> skinRatioLow skinFrame [200, 100, 50, 255, 0, 0, 0, 255]"
  by (simp_all add: skinRatioLow_def darkFrame_def skinFrame_def frame_def orDefault_def skinTone_def)

text \<open>
  Three ticks of the heuristic from a fresh component, on a black frame, a frame with a
  skin-toned pixel, and a black frame again.
\<close>

theorem fallback_at_most_one_face_witness:
  "faceCount (faceTicks plainBrowser 7 [darkFrame, skinFrame, darkFrame] recorder0) \<le> 1
   \<and> \<not> multiple_faces (proctoring (faceTicks plainBrowser 7 [darkFrame, skinFrame, darkFrame] recorder0))
   \<and> posts (faceTicks plainBrowser 7 [darkFrame, skinFrame, darkFrame] recorder0) = []
   \<and> list_all (\<lambda>v. message v = NoFaceMsg)
        (violations (faceTicks plainBrowser 7 [darkFrame, skinFrame, darkFrame] recorder0))
   \<and> faceCount (faceTick plainBrowser 7 skinFrame recorder0) = 1"
proof -
  have b: "\<not> hasFaceDetector plainBrowser"
    by (simp add: plainBrowser_def)
  have r: "faceCount recorder0 \<le> 1" "violations recorder0 = []" "posts recorder0 = []"
    "\<not> multiple_faces (proctoring recorder0)"
    by (simp_all add: recorder0_def)
  have f: "drawOk skinFrame \<and> imageData skinFrame = Some [200, 100, 50, 255, 0, 0, 0, 255]"
    by (simp add: skinFrame_def frame_def)
  show ?thesis
    using fallback_at_most_one_face [OF b r(1), of 7 "[darkFrame, skinFrame, darkFrame]"
        skinFrame "[200, 100, 50, 255, 0, 0, 0, 255]"] r(2-4) f frames(2)
    by (simp add: list_all_iff del: faceTicks.simps)
qed

end
